theory Spec2Isabelle
  imports Main "HOL-Library.Sublist"
begin

section \<open>JavaScript values, errors and calls\<close>

text \<open>
  The campaign dispatcher \<^verbatim>\<open>sendBroadcast\<close> (Message/sendBroadcast, the file that imports
  \<^verbatim>\<open>CampaignResult\<close>, \<^verbatim>\<open>findAndCheckChat\<close> and \<^verbatim>\<open>SleepTimeOfficialHoursWithRandomDelay\<close>) and
  the inbound router \<^verbatim>\<open>MessageAnalyzer\<close> are JavaScript \<^verbatim>\<open>async\<close> functions.  A call that is
  synchronous, or whose promise is awaited, either yields a value or raises; the raise
  (a \<^verbatim>\<open>throw\<close>, or the rejection of the awaited promise) is the \<open>Inl\<close> of a sum.
  \<^verbatim>\<open>TypeError\<close> is what reading a property of \<^verbatim>\<open>undefined\<close> raises, \<^verbatim>\<open>ReferenceError\<close> what
  the use of an unbound identifier raises, \<open>Thrown\<close> is an error raised by a collaborator.
\<close>

datatype js_error = TypeError | ReferenceError | Thrown string

text \<open>A session handle; \<open>None\<close> at type \<open>client option\<close> is \<^verbatim>\<open>undefined\<close>.\<close>

type_synonym client = nat

text \<open>What \<^verbatim>\<open>validateNumberWithCountryCode\<close> returns; \<open>None\<close> is \<^verbatim>\<open>undefined\<close>.\<close>

type_synonym contact = "string option"

record project =
  ProjectName :: string

text \<open>The chat object of the history probe; only its \<^verbatim>\<open>timestamp\<close> is read.\<close>

record chat =
  timestamp :: "nat option"

text \<open>The message object the transport returns; \<^verbatim>\<open>CampaignResult\<close> reads \<^verbatim>\<open>from\<close> and \<^verbatim>\<open>to\<close>.\<close>

record send_report =
  report_from :: "string option"
  report_to :: "string option"

text \<open>
  \<^verbatim>\<open>i % InputOne.Agents\<close>: the remainder of two numbers never raises in JavaScript; with a
  zero divisor it is \<^verbatim>\<open>NaN\<close>, here \<open>None\<close>.
\<close>

definition js_mod :: "nat \<Rightarrow> nat \<Rightarrow> nat option" where
  "js_mod i n = (if n = 0 then None else Some (i mod n))"

text \<open>
  \<^verbatim>\<open>validatedChatResult?.timestamp\<close> used as a condition: \<^verbatim>\<open>undefined\<close> when the result is
  nullish or has no timestamp, and a number is truthy when it is not zero.
\<close>

definition has_timestamp :: "chat option \<Rightarrow> bool" where
  "has_timestamp validatedChatResult =
     (case validatedChatResult of
        None \<Rightarrow> False
      | Some ch \<Rightarrow> (case timestamp ch of None \<Rightarrow> False | Some t \<Rightarrow> t \<noteq> 0))"

section \<open>Console/CampaignResult.js\<close>

text \<open>
  The three counters of a run.  The object \<^verbatim>\<open>sendBroadcast\<close> returns has the first two
  only, so the counters extend it.
\<close>

record broadcast_result =
  successes :: nat
  fails :: nat

record tallies = broadcast_result +
  skipped :: nat

text \<open>
  What \<^verbatim>\<open>CampaignResult\<close> prints: the iteration, the total \<^verbatim>\<open>numbers.length\<close>, the three
  tallies and \<^verbatim>\<open>numbers.length - (fails + successes + skipped)\<close>.
\<close>

record progress =
  at_iteration :: nat
  total :: nat
  shown_successes :: nat
  shown_fails :: nat
  shown_skipped :: nat
  remaining :: int

text \<open>
  \<^verbatim>\<open>CampaignResult(SendReport, Project, successes, skipped, fails, numbers, i)\<close>.  Line 6
  reads \<^verbatim>\<open>SendReport.from\<close> and \<^verbatim>\<open>SendReport.to.length\<close>, line 7 \<^verbatim>\<open>Project.ProjectName\<close>; each
  raises a TypeError on \<^verbatim>\<open>undefined\<close>, before the tallies of lines 8 and 9 are printed.
  The function returns \<^verbatim>\<open>true\<close>; the model returns what it printed.
\<close>

definition CampaignResult ::
  "send_report option \<Rightarrow> project option \<Rightarrow> nat \<Rightarrow> nat \<Rightarrow> nat \<Rightarrow> string list \<Rightarrow> nat
     \<Rightarrow> js_error + progress" where
  "CampaignResult SendReport Project n_successes n_skipped n_fails numbers i =
     (case SendReport of
        None \<Rightarrow> Inl TypeError
      | Some r \<Rightarrow>
          (case report_to r of
             None \<Rightarrow> Inl TypeError
           | Some _ \<Rightarrow>
               (case Project of
                  None \<Rightarrow> Inl TypeError
                | Some _ \<Rightarrow>
                    Inr \<lparr>at_iteration = i, total = length numbers,
                         shown_successes = n_successes, shown_fails = n_fails,
                         shown_skipped = n_skipped,
                         remaining = int (length numbers)
                                       - int (n_fails + n_successes + n_skipped)\<rparr>)))"

section \<open>sendBroadcast\<close>

text \<open>
  The collaborators \<^verbatim>\<open>sendBroadcast\<close> imports are defined in other modules; here they are
  parameters.  Those that do input or output take the loop index of the call as their
  first argument, so that a collaborator may answer each call differently.
  \<open>Agents\<close> is \<^verbatim>\<open>InputOne.Agents\<close>, \<open>AfternoonMessage\<close> the message text.
\<close>

record env =
  Agents :: nat
  AfternoonMessage :: string
  ShuffleMyArray :: "string list \<Rightarrow> js_error + string list"
  SelectingBotForCampaign :: "nat \<Rightarrow> nat option \<Rightarrow> js_error + client option"
  validateNumberWithCountryCode :: "string \<Rightarrow> js_error + contact"
  findAndCheckChat :: "contact \<Rightarrow> nat \<Rightarrow> client option \<Rightarrow> js_error + chat option"
  sendMessage :: "nat \<Rightarrow> client \<Rightarrow> contact \<Rightarrow> string \<Rightarrow> js_error + send_report option"
  SleepTimeOfficialHoursWithRandomDelay :: "nat \<Rightarrow> js_error + unit"

text \<open>What a run does that can be observed from outside, in the order it happens.\<close>

datatype event =
    SelectingBot "nat option"
  | Validate string
  | FindAndCheckChat contact "client option"
  | Skipping contact
  | SendMessage client contact string
  | Progress progress
  | Failed js_error string
  | Sleep

text \<open>How the \<^verbatim>\<open>try\<close> block of one iteration ends.\<close>

datatype completion = Normal | Continue | Raised js_error

text \<open>
  Lines 22 to 37, the \<^verbatim>\<open>try\<close> block: the probe, the skip of lines 28 to 34 (which
  leaves the iteration by \<^verbatim>\<open>continue\<close>), the send, \<^verbatim>\<open>successes++\<close> and the report.  The
  counters are returned as they stand when the block ends, also when it ends by a raise.
  \<^verbatim>\<open>WhatsAppBotClient.sendMessage\<close> on an undefined client raises a TypeError.
\<close>

definition try_block ::
  "env \<Rightarrow> bool \<Rightarrow> project option \<Rightarrow> string list \<Rightarrow> nat \<Rightarrow> contact \<Rightarrow> client option \<Rightarrow> tallies
     \<Rightarrow> completion \<times> tallies \<times> event list" where
  "try_block e newChatsOnly Project numbers i validatedContact WhatsAppBotClient c =
     (case findAndCheckChat e validatedContact i WhatsAppBotClient of
        Inl err \<Rightarrow> (Raised err, c, [FindAndCheckChat validatedContact WhatsAppBotClient])
      | Inr validatedChatResult \<Rightarrow>
          if newChatsOnly \<and> has_timestamp validatedChatResult
          then (Continue, c\<lparr>skipped := skipped c + 1\<rparr>,
                [FindAndCheckChat validatedContact WhatsAppBotClient,
                 Skipping validatedContact])
          else
            (case WhatsAppBotClient of
               None \<Rightarrow>
                 (Raised TypeError, c, [FindAndCheckChat validatedContact WhatsAppBotClient])
             | Some cl \<Rightarrow>
                 (case sendMessage e i cl validatedContact (AfternoonMessage e) of
                    Inl err \<Rightarrow>
                      (Raised err, c,
                       [FindAndCheckChat validatedContact WhatsAppBotClient,
                        SendMessage cl validatedContact (AfternoonMessage e)])
                  | Inr SendReport \<Rightarrow>
                      (case CampaignResult SendReport Project (successes c + 1) (skipped c)
                              (fails c) numbers i of
                         Inl err \<Rightarrow>
                           (Raised err, c\<lparr>successes := successes c + 1\<rparr>,
                            [FindAndCheckChat validatedContact WhatsAppBotClient,
                             SendMessage cl validatedContact (AfternoonMessage e)])
                       | Inr p \<Rightarrow>
                           (Normal, c\<lparr>successes := successes c + 1\<rparr>,
                            [FindAndCheckChat validatedContact WhatsAppBotClient,
                             SendMessage cl validatedContact (AfternoonMessage e),
                             Progress p])))))"

text \<open>Line 43, after the \<^verbatim>\<open>try\<close> statement: the awaited delay; its raise leaves the function.\<close>

definition sleep_then ::
  "env \<Rightarrow> nat \<Rightarrow> tallies \<Rightarrow> event list \<Rightarrow> (js_error + tallies) \<times> event list" where
  "sleep_then e i c evs =
     (case SleepTimeOfficialHoursWithRandomDelay e i of
        Inl err \<Rightarrow> (Inl err, evs @ [Sleep])
      | Inr _ \<Rightarrow> (Inr c, evs @ [Sleep]))"

text \<open>
  One pass through the loop body, lines 19 to 43.  The session is selected (line 20) and the
  number validated (line 21) before the \<^verbatim>\<open>try\<close>: a raise there leaves \<^verbatim>\<open>sendBroadcast\<close>.
  The \<^verbatim>\<open>catch\<close> of lines 38 to 42 logs and counts a failure, then the delay runs; the
  \<^verbatim>\<open>continue\<close> of line 32 goes to the next contact at once.
\<close>

definition iteration ::
  "env \<Rightarrow> bool \<Rightarrow> project option \<Rightarrow> string list \<Rightarrow> nat \<Rightarrow> string \<Rightarrow> tallies
     \<Rightarrow> (js_error + tallies) \<times> event list" where
  "iteration e newChatsOnly Project numbers i num c =
     (case SelectingBotForCampaign e i (js_mod i (Agents e)) of
        Inl err \<Rightarrow> (Inl err, [SelectingBot (js_mod i (Agents e))])
      | Inr WhatsAppBotClient \<Rightarrow>
          (case validateNumberWithCountryCode e num of
             Inl err \<Rightarrow> (Inl err, [SelectingBot (js_mod i (Agents e)), Validate num])
           | Inr validatedContact \<Rightarrow>
               (case try_block e newChatsOnly Project numbers i validatedContact
                       WhatsAppBotClient c of
                  (Continue, c', evs) \<Rightarrow>
                    (Inr c', [SelectingBot (js_mod i (Agents e)), Validate num] @ evs)
                | (Normal, c', evs) \<Rightarrow>
                    sleep_then e i c' ([SelectingBot (js_mod i (Agents e)), Validate num] @ evs)
                | (Raised err, c', evs) \<Rightarrow>
                    sleep_then e i (c'\<lparr>fails := fails c' + 1\<rparr>)
                      ([SelectingBot (js_mod i (Agents e)), Validate num] @ evs
                         @ [Failed err num]))))"

text \<open>
  The loop of line 18 over \<^verbatim>\<open>numbers.entries()\<close>, from index \<open>i\<close> on.  Every event is paired
  with the index of the iteration that produced it.
\<close>

fun broadcast_loop ::
  "env \<Rightarrow> bool \<Rightarrow> project option \<Rightarrow> string list \<Rightarrow> nat \<Rightarrow> string list \<Rightarrow> tallies
     \<Rightarrow> (js_error + tallies) \<times> (nat \<times> event) list" where
  "broadcast_loop e newChatsOnly Project numbers i [] c = (Inr c, [])"
| "broadcast_loop e newChatsOnly Project numbers i (num # rest) c =
     (case iteration e newChatsOnly Project numbers i num c of
        (Inl err, evs) \<Rightarrow> (Inl err, map (Pair i) evs)
      | (Inr c', evs) \<Rightarrow>
          (case broadcast_loop e newChatsOnly Project numbers (Suc i) rest c' of
             (r, evs') \<Rightarrow> (r, map (Pair i) evs @ evs')))"

text \<open>
  Lines 12 to 44: the counters start at zero, the list is shuffled (awaited, outside any
  \<^verbatim>\<open>try\<close>) and the loop runs over the shuffled list.  The result is the counters at the end
  of the loop, or the error that left the function, with the events.
\<close>

definition campaign_run ::
  "env \<Rightarrow> string list \<Rightarrow> project option \<Rightarrow> bool
     \<Rightarrow> (js_error + tallies) \<times> (nat \<times> event) list" where
  "campaign_run e MNumbers Project newChatsOnly =
     (case ShuffleMyArray e MNumbers of
        Inl err \<Rightarrow> (Inl err, [])
      | Inr numbers \<Rightarrow>
          broadcast_loop e newChatsOnly Project numbers 0 numbers
            \<lparr>successes = 0, fails = 0, skipped = 0\<rparr>)"

text \<open>
  \<^verbatim>\<open>sendBroadcast(MNumbers, Project, newChatsOnly = true)\<close>: the run, then lines 45 to 50, which
  return \<^verbatim>\<open>{successes, fails}\<close>.  (A caller that leaves \<^verbatim>\<open>newChatsOnly\<close> out passes \<open>True\<close>.)
\<close>

definition sendBroadcast ::
  "env \<Rightarrow> string list \<Rightarrow> project option \<Rightarrow> bool \<Rightarrow> js_error + broadcast_result" where
  "sendBroadcast e MNumbers Project newChatsOnly =
     (case fst (campaign_run e MNumbers Project newChatsOnly) of
        Inl err \<Rightarrow> Inl err
      | Inr c \<Rightarrow> Inr \<lparr>successes = successes c, fails = fails c\<rparr>)"

section \<open>MessageAnalyzer\<close>

text \<open>
  An inbound message event: \<^verbatim>\<open>msg.type\<close>, \<^verbatim>\<open>msg.body\<close> (\<open>None\<close> when the event has no body),
  \<^verbatim>\<open>msg.hasQuotedMsg\<close> and \<^verbatim>\<open>msg.from\<close>.
\<close>

record message =
  msg_type :: string
  body :: "string option"
  hasQuotedMsg :: bool
  msg_from :: string

text \<open>
  The promise a call returns when it is not awaited: its rejection is not seen by the
  \<^verbatim>\<open>try\<close> statement the call stands in.
\<close>

datatype 'a promise = Resolved 'a | Rejected js_error

text \<open>
  The tables and handlers \<^verbatim>\<open>MessageAnalyzer\<close> imports are parameters.  Every handler is
  awaited (\<open>Inl\<close> is its throw or the rejection of its promise) but \<^verbatim>\<open>msg.reply\<close> on line 46,
  which is called as a statement: \<open>Inl\<close> is its synchronous throw, and it returns a promise.
  \<^verbatim>\<open>findWord\<close> is synchronous.
\<close>

record router_env =
  ClientQuestionsArray :: "string list"
  ClientAnswersArray :: "string list"
  MyProjects :: "project list"
  FindAndShareOwnerNumberOnAgentRequest :: "message \<Rightarrow> js_error + unit"
  SharingMobileNumber :: "message \<Rightarrow> js_error + unit"
  reply :: "message \<Rightarrow> string option \<Rightarrow> js_error + unit promise"
  CreatingNewWhatsAppClientLucy :: "string \<Rightarrow> js_error + client option"
  findWord :: "string \<Rightarrow> string \<Rightarrow> js_error + bool"
  ProjectCampaign :: "project \<Rightarrow> js_error + bool"

text \<open>
  The calls \<^verbatim>\<open>MessageAnalyzer\<close> makes, the error its \<^verbatim>\<open>catch\<close> logs (line 94), and a
  rejection nothing handles.
\<close>

datatype router_event =
    OwnerLookup message
  | ContactSharing message
  | Reply "string option"
  | CreateLucy string
  | FindWord string string
  | Campaign project
  | Caught js_error
  | UnhandledRejection js_error

text \<open>
  The handlers of the router: the owner lookup, the contact sharing, the FAQ reply, the
  onboarding and the campaign.  \<^verbatim>\<open>findWord\<close> is a string search on two constants whose result
  is printed; it is no handler.
\<close>

fun is_handler :: "router_event \<Rightarrow> bool" where
  "is_handler (OwnerLookup _) = True"
| "is_handler (ContactSharing _) = True"
| "is_handler (Reply _) = True"
| "is_handler (CreateLucy _) = True"
| "is_handler (Campaign _) = True"
| "is_handler (FindWord _ _) = False"
| "is_handler (Caught _) = False"
| "is_handler (UnhandledRejection _) = False"

text \<open>\<^verbatim>\<open>Array.prototype.findIndex\<close>: the first index whose element satisfies \<open>P\<close>, or \<open>-1\<close>.\<close>

fun findIndex :: "('a \<Rightarrow> bool) \<Rightarrow> 'a list \<Rightarrow> int" where
  "findIndex P [] = - 1"
| "findIndex P (x # xs) =
     (if P x then 0 else (let k = findIndex P xs in if k < 0 then - 1 else k + 1))"

text \<open>\<^verbatim>\<open>xs[k]\<close>: \<^verbatim>\<open>undefined\<close> outside the array.\<close>

definition js_at :: "'a list \<Rightarrow> int \<Rightarrow> 'a option" where
  "js_at xs k = (if 0 \<le> k \<and> k < int (length xs) then Some (xs ! nat k) else None)"

text \<open>
  Lines 29 to 84, the branches for a message of type \<^verbatim>\<open>chat\<close>, with how the branch ends and
  the calls it made.  \<^verbatim>\<open>msg.body.includes\<close> raises a TypeError on a missing body.
  \<^verbatim>\<open>WhatsAppClientFunctions\<close> on line 51 is neither imported nor declared in the module, so
  its call raises a ReferenceError once \<^verbatim>\<open>CreatingNewWhatsAppClientLucy\<close> has returned.
  The branches of lines 54 to 67 and the last one only print.
\<close>

definition chat_branches :: "router_env \<Rightarrow> message \<Rightarrow> (js_error + unit) \<times> router_event list" where
  "chat_branches r msg =
     (if body msg = Some ''Kindly share the mobile number of the owner''
      then (FindAndShareOwnerNumberOnAgentRequest r msg, [OwnerLookup msg])
      else
        (case body msg of
           None \<Rightarrow> (Inl TypeError, [])
         | Some b \<Rightarrow>
             if sublist ''House Number/Municipality Number='' b \<and> hasQuotedMsg msg
             then (SharingMobileNumber r msg, [ContactSharing msg])
             else if b \<in> set (ClientQuestionsArray r)
             then
               (let index = findIndex (\<lambda>x. x = b) (ClientQuestionsArray r);
                    answer = js_at (ClientAnswersArray r) index
                in case reply r msg answer of
                     Inl err \<Rightarrow> (Inl err, [Reply answer])
                   | Inr (Rejected err) \<Rightarrow> (Inr (), [Reply answer, UnhandledRejection err])
                   | Inr (Resolved _) \<Rightarrow> (Inr (), [Reply answer]))
             else if b = ''I want to signup as lucy''
             then
               (case CreatingNewWhatsAppClientLucy r ''Lucy'' of
                  Inl err \<Rightarrow> (Inl err, [CreateLucy ''Lucy''])
                | Inr Lucy \<Rightarrow> (Inl ReferenceError, [CreateLucy ''Lucy'']))
             else if b = ''I want to register as agent''
             then (Inr (), [])
             else if b = ''Kindly share the secondary mobile number of the owner''
             then (Inr (), [])
             else if find (\<lambda>x. ProjectName x = b) (MyProjects r) \<noteq> None
                     \<and> sublist ''Mission Speed'' b
             then (Inr (), [])
             else
               (case find (\<lambda>x. ProjectName x = b) (MyProjects r) of
                  Some Project \<Rightarrow>
                    (case findWord r ''woo'' ''How much wood could a wood chip chop'' of
                       Inl err \<Rightarrow>
                         (Inl err, [FindWord ''woo'' ''How much wood could a wood chip chop''])
                     | Inr _ \<Rightarrow>
                         (case ProjectCampaign r Project of
                            Inl err \<Rightarrow>
                              (Inl err,
                               [FindWord ''woo'' ''How much wood could a wood chip chop'',
                                Campaign Project])
                          | Inr _ \<Rightarrow>
                              (Inr (),
                               [FindWord ''woo'' ''How much wood could a wood chip chop'',
                                Campaign Project])))
                | None \<Rightarrow> (Inr (), []))))"

text \<open>
  \<^verbatim>\<open>MessageAnalyzer(msg)\<close>, lines 21 to 96: the \<^verbatim>\<open>try\<close> over the three kinds of message, and
  the \<^verbatim>\<open>catch\<close> that prints the error.  The first component is how the function itself
  ends: \<open>Inr ()\<close> is a normal return.
\<close>

definition MessageAnalyzer :: "router_env \<Rightarrow> message \<Rightarrow> (js_error + unit) \<times> router_event list" where
  "MessageAnalyzer r msg =
     (case (if msg_type msg = ''chat'' then chat_branches r msg
            else if msg_type msg = ''video'' then (Inr (), [])
            else (Inr (), [])) of
        (Inl err, evs) \<Rightarrow> (Inr (), evs @ [Caught err])
      | (Inr u, evs) \<Rightarrow> (Inr u, evs))"

section \<open>Concrete runs\<close>

text \<open>
  A campaign office with two sessions in which every collaborator answers: the selector
  returns the session of the index it is given (\<^verbatim>\<open>undefined\<close> for \<^verbatim>\<open>NaN\<close>), every number is
  valid, no contact has a chat yet, and every message is delivered.
\<close>

definition office :: env where
  "office =
     \<lparr>Agents = 2,
      AfternoonMessage = ''Good afternoon'',
      ShuffleMyArray = Inr,
      SelectingBotForCampaign = (\<lambda>i a. Inr a),
      validateNumberWithCountryCode = (\<lambda>num. Inr (Some num)),
      findAndCheckChat = (\<lambda>vc i cl. Inr None),
      sendMessage =
        (\<lambda>i cl vc m. Inr (Some \<lparr>report_from = Some ''971500000000'', report_to = vc\<rparr>)),
      SleepTimeOfficialHoursWithRandomDelay = (\<lambda>i. Inr ())\<rparr>"

definition villas :: "project option" where
  "villas = Some \<lparr>ProjectName = ''Villas''\<rparr>"

text \<open>The transport resolves \<^verbatim>\<open>sendMessage\<close> with \<^verbatim>\<open>undefined\<close>.\<close>

definition silent_transport :: env where
  "silent_transport = office\<lparr>sendMessage := (\<lambda>i cl vc m. Inr None)\<rparr>"

text \<open>The transport rejects every send.\<close>

definition transport_down :: env where
  "transport_down = office\<lparr>sendMessage := (\<lambda>i cl vc m. Inl (Thrown ''TransportError''))\<rparr>"

text \<open>Every contact already has a chat, last active at the given time.\<close>

definition known_contacts :: env where
  "known_contacts =
     office\<lparr>findAndCheckChat := (\<lambda>vc i cl. Inr (Some \<lparr>timestamp = Some 1700000000\<rparr>))\<rparr>"

text \<open>The history probe cannot be completed: it raises.\<close>

definition probe_down :: env where
  "probe_down = office\<lparr>findAndCheckChat := (\<lambda>vc i cl. Inl (Thrown ''ProbeUnavailable''))\<rparr>"

text \<open>A validator that raises on every number but one.\<close>

definition strict_validator :: env where
  "strict_validator =
     office\<lparr>validateNumberWithCountryCode :=
       (\<lambda>num. if num = ''971501112222'' then Inr (Some num)
              else Inl (Thrown ''InvalidFormat''))\<rparr>"

text \<open>An office whose session pool is empty.\<close>

definition no_agents :: env where
  "no_agents = office\<lparr>Agents := 0\<rparr>"

text \<open>
  A front desk with three questions, the first of them listed twice, and one campaign.
  Every handler returns; the reply is delivered.
\<close>

definition desk :: router_env where
  "desk =
     \<lparr>ClientQuestionsArray =
        [''What is the price?'', ''Where is the property?'', ''What is the price?''],
      ClientAnswersArray = [''It starts at 1.2M AED'', ''In Damac Hills 2'', ''Ask the agent''],
      MyProjects = [\<lparr>ProjectName = ''Villas''\<rparr>],
      FindAndShareOwnerNumberOnAgentRequest = (\<lambda>msg. Inr ()),
      SharingMobileNumber = (\<lambda>msg. Inr ()),
      reply = (\<lambda>msg answer. Inr (Resolved ())),
      CreatingNewWhatsAppClientLucy = (\<lambda>name. Inr (Some 7)),
      findWord = (\<lambda>w s. Inr True),
      ProjectCampaign = (\<lambda>p. Inr True)\<rparr>"

text \<open>The same desk when the reply cannot be delivered: the promise of \<^verbatim>\<open>msg.reply\<close> rejects.\<close>

definition offline_desk :: router_env where
  "offline_desk = desk\<lparr>reply := (\<lambda>msg answer. Inr (Rejected (Thrown ''TransportError'')))\<rparr>"

definition where_message :: message where
  "where_message =
     \<lparr>msg_type = ''chat'', body = Some ''Where is the property?'',
      hasQuotedMsg = False, msg_from = ''971501112222@c.us''\<rparr>"

text \<open>The tallies that \<^verbatim>\<open>CampaignResult\<close> printed, among the events of an iteration.\<close>

fun progress_shown :: "event list \<Rightarrow> progress list" where
  "progress_shown [] = []"
| "progress_shown (Progress p # evs) = p # progress_shown evs"
| "progress_shown (ev # evs) = progress_shown evs"

section \<open>The campaign run\<close>

subsection \<open>Auxiliary facts\<close>

lemmas run_defs =
  campaign_run_def sendBroadcast_def iteration_def try_block_def sleep_then_def
  CampaignResult_def js_mod_def has_timestamp_def

lemmas office_defs = office_def villas_def

text \<open>The events of the loop from index \<open>i\<close> on carry the indices of its own contacts.\<close>

lemma loop_tags:
  "(j, ev) \<in> set (snd (broadcast_loop e n P numbers i nums c))
     \<Longrightarrow> i \<le> j \<and> j < i + length nums"
proof (induction nums arbitrary: i c)
  case Nil
  then show ?case by simp
next
  case (Cons num rest)
  show ?case
  proof (cases "iteration e n P numbers i num c")
    case (Pair r evs)
    show ?thesis
    proof (cases r)
      case (Inl err)
      with Pair Cons.prems show ?thesis by auto
    next
      case (Inr c')
      obtain r' t where L: "broadcast_loop e n P numbers (Suc i) rest c' = (r', t)"
        by (cases "broadcast_loop e n P numbers (Suc i) rest c'")
      from Cons.prems Pair Inr L
      have "(j, ev) \<in> set (map (Pair i) evs) \<or> (j, ev) \<in> set t"
        by auto
      then show ?thesis
      proof
        assume "(j, ev) \<in> set (map (Pair i) evs)"
        then show ?thesis by auto
      next
        assume "(j, ev) \<in> set t"
        with L have "(j, ev) \<in> set (snd (broadcast_loop e n P numbers (Suc i) rest c'))"
          by simp
        from Cons.IH[OF this] show ?thesis by simp
      qed
    qed
  qed
qed

text \<open>The \<^verbatim>\<open>try\<close> block never touches the failure counter; only the \<^verbatim>\<open>catch\<close> does.\<close>

lemma try_block_fails:
  "fails (fst (snd (try_block e n P numbers i vc cl c))) = fails c"
  by (simp add: try_block_def split: sum.splits option.splits)

text \<open>The first thing the \<^verbatim>\<open>try\<close> block does is the probe, with the validator's value.\<close>

lemma try_block_probes:
  "FindAndCheckChat vc cl \<in> set (snd (snd (try_block e n P numbers i vc cl c)))"
  by (simp add: try_block_def split: sum.splits option.splits)

text \<open>How the \<^verbatim>\<open>try\<close> block ends, in terms of what the collaborators answer.\<close>

lemma try_block_Continue_iff:
  "fst (try_block e n P numbers i vc cl c) = Continue
     \<longleftrightarrow> n \<and> (\<exists>r. findAndCheckChat e vc i cl = Inr r \<and> has_timestamp r)"
  by (auto simp: try_block_def split: sum.splits option.splits)

lemma try_block_Raised_iff:
  "fst (try_block e n P numbers i vc cl c) = Raised err
     \<longleftrightarrow> findAndCheckChat e vc i cl = Inl err
        \<or> (\<exists>r. findAndCheckChat e vc i cl = Inr r \<and> \<not> (n \<and> has_timestamp r)
             \<and> (cl = None \<and> err = TypeError
                \<or> (\<exists>s. cl = Some s
                     \<and> (sendMessage e i s vc (AfternoonMessage e) = Inl err
                        \<or> (\<exists>rep. sendMessage e i s vc (AfternoonMessage e) = Inr rep
                             \<and> CampaignResult rep P (successes c + 1) (skipped c) (fails c)
                                   numbers i = Inl err)))))"
  by (auto simp: try_block_def split: sum.splits option.splits)

lemma progress_shown_append:
  "progress_shown (xs @ ys) = progress_shown xs @ progress_shown ys"
  by (induction xs rule: progress_shown.induct) simp_all

text \<open>
  When no report raises (every send that returns gives a message with a \<^verbatim>\<open>to\<close>, and the
  project is defined), each contact adds one to exactly one counter.
\<close>

lemma iteration_adds_one:
  assumes "P \<noteq> None"
    and "\<forall>j s vc m rep. sendMessage e j s vc m = Inr rep
            \<longrightarrow> (\<exists>r t. rep = Some r \<and> report_to r = Some t)"
    and "iteration e n P numbers i num c = (Inr c', evs)"
  shows "successes c' + fails c' + skipped c' = successes c + fails c + skipped c + 1"
  using assms
  by (fastforce simp: iteration_def try_block_def sleep_then_def CampaignResult_def
        split: sum.splits option.splits if_splits)

lemma tallies_add_up:
  assumes "P \<noteq> None"
    and "\<forall>j s vc m rep. sendMessage e j s vc m = Inr rep
            \<longrightarrow> (\<exists>r t. rep = Some r \<and> report_to r = Some t)"
    and "broadcast_loop e n P numbers i nums c = (Inr c', t)"
  shows "successes c' + fails c' + skipped c'
           = successes c + fails c + skipped c + length nums"
  using assms(3)
proof (induction nums arbitrary: i c t)
  case Nil
  then show ?case by simp
next
  case (Cons num rest)
  obtain r evs where it: "iteration e n P numbers i num c = (r, evs)"
    by (cases "iteration e n P numbers i num c")
  show ?case
  proof (cases r)
    case (Inl err)
    with it Cons.prems show ?thesis by simp
  next
    case (Inr c1)
    obtain r' t' where L: "broadcast_loop e n P numbers (Suc i) rest c1 = (r', t')"
      by (cases "broadcast_loop e n P numbers (Suc i) rest c1")
    from Cons.prems it Inr L have "r' = Inr c'" by simp
    with L have "successes c' + fails c' + skipped c'
                   = successes c1 + fails c1 + skipped c1 + length rest"
      using Cons.IH by blast
    moreover from it Inr have "iteration e n P numbers i num c = (Inr c1, evs)"
      by simp
    from iteration_adds_one[OF assms(1) assms(2) this]
    have "successes c1 + fails c1 + skipped c1 = successes c + fails c + skipped c + 1" .
    ultimately show ?thesis by simp
  qed
qed

subsection \<open>The three counters\<close>

text \<open>
  C1.  The claim: after a run over \<open>k\<close> contacts that completes normally,
  \<open>successes + fails + skipped = k\<close>, each iteration adding one to exactly one counter.
  The code counts a contact twice when the report raises: \<^verbatim>\<open>successes++\<close> (line 36) has run
  when \<^verbatim>\<open>CampaignResult\<close> (line 37, inside the \<^verbatim>\<open>try\<close>) raises, and the \<^verbatim>\<open>catch\<close> then runs
  \<^verbatim>\<open>fails++\<close>.  With one contact, a send that resolves with \<^verbatim>\<open>undefined\<close> (or a call without a
  project) ends the run normally with one success and one failure: the sum is two.
  (Lemma \<open>tallies_add_up\<close>: the sum is \<open>k\<close> whenever no report raises.)
\<close>

theorem sendBroadcast_counts_contact_twice:
  "campaign_run silent_transport [''971501112222''] villas False =
     (Inr \<lparr>successes = 1, fails = 1, skipped = 0\<rparr>,
      [(0, SelectingBot (Some 0)), (0, Validate ''971501112222''),
       (0, FindAndCheckChat (Some ''971501112222'') (Some 0)),
       (0, SendMessage 0 (Some ''971501112222'') ''Good afternoon''),
       (0, Failed TypeError ''971501112222''), (0, Sleep)])
   \<and> fst (campaign_run office [''971501112222''] None False) =
       Inr \<lparr>successes = 1, fails = 1, skipped = 0\<rparr>"
  by (simp add: run_defs office_defs silent_transport_def)

subsection \<open>Contacts that already have a chat\<close>

text \<open>
  C4.  In a run with \<^verbatim>\<open>newChatsOnly\<close>, a contact whose probe result carries a timestamp (the
  condition \<^verbatim>\<open>validatedChatResult?.timestamp\<close> of line 29 holds) is skipped: its iteration
  selects the session, validates, probes, prints the skip and adds one to \<open>skipped\<close>, leaving
  the other counters as they are; and nowhere in the rest of the run is \<^verbatim>\<open>sendMessage\<close>
  called for that contact.
\<close>

theorem found_contact_is_skipped_and_never_sent:
  assumes sel: "SelectingBotForCampaign e i (js_mod i (Agents e)) = Inr cl"
    and val: "validateNumberWithCountryCode e num = Inr vc"
    and probe: "findAndCheckChat e vc i cl = Inr r"
    and found: "has_timestamp r"
  shows "iteration e True P numbers i num c =
           (Inr (c\<lparr>skipped := skipped c + 1\<rparr>),
            [SelectingBot (js_mod i (Agents e)), Validate num, FindAndCheckChat vc cl,
             Skipping vc])
         \<and> (\<forall>cl' vc' m. (i, SendMessage cl' vc' m)
               \<notin> set (snd (broadcast_loop e True P numbers i (num # rest) c)))"
proof -
  let ?c = "c\<lparr>skipped := skipped c + 1\<rparr>"
  have it: "iteration e True P numbers i num c =
           (Inr ?c,
            [SelectingBot (js_mod i (Agents e)), Validate num, FindAndCheckChat vc cl,
             Skipping vc])"
    using assms by (simp add: iteration_def try_block_def)
  have "(i, SendMessage cl' vc' m)
          \<notin> set (snd (broadcast_loop e True P numbers i (num # rest) c))" for cl' vc' m
  proof
    assume a: "(i, SendMessage cl' vc' m)
                 \<in> set (snd (broadcast_loop e True P numbers i (num # rest) c))"
    obtain r' t where L: "broadcast_loop e True P numbers (Suc i) rest ?c = (r', t)"
      by (cases "broadcast_loop e True P numbers (Suc i) rest ?c")
    from a it L have "(i, SendMessage cl' vc' m) \<in> set t" by auto
    with L have "(i, SendMessage cl' vc' m)
                   \<in> set (snd (broadcast_loop e True P numbers (Suc i) rest ?c))"
      by simp
    from loop_tags[OF this] show False by simp
  qed
  with it show ?thesis by blast
qed

theorem found_contact_is_skipped_witness:
  "iteration known_contacts True villas [''971501112222'', ''971501113333''] 0 ''971501112222''
       \<lparr>successes = 0, fails = 0, skipped = 0\<rparr> =
     (Inr \<lparr>successes = 0, fails = 0, skipped = 1\<rparr>,
      [SelectingBot (Some 0), Validate ''971501112222'',
       FindAndCheckChat (Some ''971501112222'') (Some 0), Skipping (Some ''971501112222'')])
   \<and> (\<forall>cl' vc' m. (0, SendMessage cl' vc' m)
         \<notin> set (snd (broadcast_loop known_contacts True villas
                       [''971501112222'', ''971501113333''] 0
                       [''971501112222'', ''971501113333'']
                       \<lparr>successes = 0, fails = 0, skipped = 0\<rparr>)))"
proof -
  have m: "js_mod 0 (Agents known_contacts) = Some 0"
    by (simp add: js_mod_def office_defs known_contacts_def)
  have sel: "SelectingBotForCampaign known_contacts 0 (js_mod 0 (Agents known_contacts))
               = Inr (Some 0)"
    by (simp add: js_mod_def office_defs known_contacts_def)
  have val: "validateNumberWithCountryCode known_contacts ''971501112222''
               = Inr (Some ''971501112222'')"
    by (simp add: office_defs known_contacts_def)
  have probe: "findAndCheckChat known_contacts (Some ''971501112222'') 0 (Some 0)
                 = Inr (Some \<lparr>timestamp = Some 1700000000\<rparr>)"
    by (simp add: office_defs known_contacts_def)
  have found: "has_timestamp (Some \<lparr>timestamp = Some 1700000000\<rparr>)"
    by (simp add: has_timestamp_def)
  from found_contact_is_skipped_and_never_sent[OF sel val probe found,
         of villas "[''971501112222'', ''971501113333'']"
            "\<lparr>successes = 0, fails = 0, skipped = 0\<rparr>" "[''971501113333'']"]
  show ?thesis by (simp add: m del: broadcast_loop.simps)
qed

subsection \<open>The value returned\<close>

text \<open>
  C10.  When the run completes normally with the counters \<open>c\<close>, \<^verbatim>\<open>sendBroadcast\<close> returns the
  object with the two fields \<open>successes\<close> and \<open>fails\<close> of \<open>c\<close>; the type of the result has no
  other field, so \<open>skipped\<close> is not returned.
\<close>

theorem sendBroadcast_returns_successes_and_fails:
  assumes "fst (campaign_run e MNumbers P n) = Inr c"
  shows "sendBroadcast e MNumbers P n = Inr \<lparr>successes = successes c, fails = fails c\<rparr>"
  using assms by (simp add: sendBroadcast_def)

theorem sendBroadcast_returns_witness:
  "fst (campaign_run known_contacts [''971501112222''] villas True)
     = Inr \<lparr>successes = 0, fails = 0, skipped = 1\<rparr>
   \<and> sendBroadcast known_contacts [''971501112222''] villas True
     = Inr \<lparr>successes = 0, fails = 0\<rparr>"
proof -
  have run: "fst (campaign_run known_contacts [''971501112222''] villas True)
               = Inr \<lparr>successes = 0, fails = 0, skipped = 1\<rparr>"
    by (simp add: run_defs office_defs known_contacts_def)
  from sendBroadcast_returns_successes_and_fails[OF run] run show ?thesis by simp
qed

subsection \<open>The progress report and the delay\<close>

text \<open>
  C2, as claimed: a progress observation with the running tallies is emitted after every
  contact, whatever its outcome.  It fails: \<^verbatim>\<open>CampaignResult\<close> is called on line 37 only,
  after a send that returned.  Here the transport rejects the send; the run completes with
  one failure and its events show no progress report.
\<close>

theorem no_progress_after_failed_send:
  "campaign_run transport_down [''971501112222''] villas False =
     (Inr \<lparr>successes = 0, fails = 1, skipped = 0\<rparr>,
      [(0, SelectingBot (Some 0)), (0, Validate ''971501112222''),
       (0, FindAndCheckChat (Some ''971501112222'') (Some 0)),
       (0, SendMessage 0 (Some ''971501112222'') ''Good afternoon''),
       (0, Failed (Thrown ''TransportError'') ''971501112222''), (0, Sleep)])"
  by (simp add: run_defs office_defs transport_down_def)

text \<open>
  C2, amended.  For every contact that reaches the \<^verbatim>\<open>try\<close> block: when the block completes
  (the contact was sent and the report printed), exactly one progress observation is
  emitted, with the iteration, the total, the tallies after this contact and
  \<open>remaining = total - (fails + successes + skipped)\<close>; when the block is left by
  \<^verbatim>\<open>continue\<close> (skipped) or by a raise (failed), none is emitted.
\<close>

theorem progress_exactly_when_sent:
  assumes sel: "SelectingBotForCampaign e i (js_mod i (Agents e)) = Inr cl"
    and val: "validateNumberWithCountryCode e num = Inr vc"
  shows "progress_shown (snd (iteration e n P numbers i num c)) =
           (case fst (try_block e n P numbers i vc cl c) of
              Normal \<Rightarrow>
                [\<lparr>at_iteration = i, total = length numbers,
                  shown_successes = successes c + 1, shown_fails = fails c,
                  shown_skipped = skipped c,
                  remaining = int (length numbers)
                                - int (fails c + (successes c + 1) + skipped c)\<rparr>]
            | Continue \<Rightarrow> []
            | Raised err \<Rightarrow> [])"
  using assms
  by (simp add: iteration_def try_block_def sleep_then_def CampaignResult_def
        progress_shown_append split: sum.splits option.splits)

theorem progress_exactly_when_sent_witness:
  "progress_shown
     (snd (iteration office False villas [''971501112222'', ''971501113333''] 1 ''971501113333''
             \<lparr>successes = 1, fails = 0, skipped = 0\<rparr>)) =
     [\<lparr>at_iteration = 1, total = 2, shown_successes = 2, shown_fails = 0, shown_skipped = 0,
       remaining = 0\<rparr>]
   \<and> progress_shown
       (snd (iteration transport_down False villas [''971501112222''] 0 ''971501112222''
               \<lparr>successes = 0, fails = 0, skipped = 0\<rparr>)) = []
   \<and> progress_shown
       (snd (iteration known_contacts True villas [''971501112222''] 0 ''971501112222''
               \<lparr>successes = 0, fails = 0, skipped = 0\<rparr>)) = []"
proof -
  have sent: "progress_shown
     (snd (iteration office False villas [''971501112222'', ''971501113333''] 1 ''971501113333''
             \<lparr>successes = 1, fails = 0, skipped = 0\<rparr>)) =
     [\<lparr>at_iteration = 1, total = 2, shown_successes = 2, shown_fails = 0, shown_skipped = 0,
       remaining = 0\<rparr>]"
    using progress_exactly_when_sent
            [of office 1 "Some 1" "''971501113333''" "Some ''971501113333''" False villas
                "[''971501112222'', ''971501113333'']"
                "\<lparr>successes = 1, fails = 0, skipped = 0\<rparr>"]
    by (simp add: office_defs js_mod_def try_block_def CampaignResult_def has_timestamp_def)
  have failed: "progress_shown
       (snd (iteration transport_down False villas [''971501112222''] 0 ''971501112222''
               \<lparr>successes = 0, fails = 0, skipped = 0\<rparr>)) = []"
    using progress_exactly_when_sent
            [of transport_down 0 "Some 0" "''971501112222''" "Some ''971501112222''" False
                villas "[''971501112222'']" "\<lparr>successes = 0, fails = 0, skipped = 0\<rparr>"]
    by (simp add: office_defs transport_down_def js_mod_def try_block_def has_timestamp_def)
  have skip: "progress_shown
       (snd (iteration known_contacts True villas [''971501112222''] 0 ''971501112222''
               \<lparr>successes = 0, fails = 0, skipped = 0\<rparr>)) = []"
    using progress_exactly_when_sent
            [of known_contacts 0 "Some 0" "''971501112222''" "Some ''971501112222''" True
                villas "[''971501112222'']" "\<lparr>successes = 0, fails = 0, skipped = 0\<rparr>"]
    by (simp add: office_defs known_contacts_def js_mod_def try_block_def has_timestamp_def)
  from sent failed skip show ?thesis by blast
qed

text \<open>
  C3, as claimed: the delay runs exactly once for every contact, whatever its outcome.  It
  fails for a skipped contact: \<^verbatim>\<open>continue\<close> (line 32) goes to the next contact from inside the
  \<^verbatim>\<open>try\<close>, and line 43 is not reached.  Here the one contact has a chat; the run ends with
  one skip and no delay.
\<close>

theorem no_delay_after_skip:
  "campaign_run known_contacts [''971501112222''] villas True =
     (Inr \<lparr>successes = 0, fails = 0, skipped = 1\<rparr>,
      [(0, SelectingBot (Some 0)), (0, Validate ''971501112222''),
       (0, FindAndCheckChat (Some ''971501112222'') (Some 0)),
       (0, Skipping (Some ''971501112222''))])"
  by (simp add: run_defs office_defs known_contacts_def)

text \<open>
  C3, amended.  For every contact that reaches the \<^verbatim>\<open>try\<close> block: when the block completes
  (sent) or raises (failed), the delay runs exactly once, as the last thing the iteration
  does before the loop goes on; when the block is left by \<^verbatim>\<open>continue\<close> (skipped), the delay
  does not run.
\<close>

theorem delay_once_unless_skipped:
  assumes sel: "SelectingBotForCampaign e i (js_mod i (Agents e)) = Inr cl"
    and val: "validateNumberWithCountryCode e num = Inr vc"
  shows "(case fst (try_block e n P numbers i vc cl c) of
            Continue \<Rightarrow> count_list (snd (iteration e n P numbers i num c)) Sleep = 0
          | Normal \<Rightarrow> count_list (snd (iteration e n P numbers i num c)) Sleep = 1
                       \<and> last (snd (iteration e n P numbers i num c)) = Sleep
          | Raised err \<Rightarrow> count_list (snd (iteration e n P numbers i num c)) Sleep = 1
                       \<and> last (snd (iteration e n P numbers i num c)) = Sleep)"
  using assms
  by (simp add: iteration_def try_block_def sleep_then_def
        split: sum.splits option.splits)

theorem delay_once_unless_skipped_witness:
  "count_list (snd (iteration known_contacts True villas [''971501112222''] 0 ''971501112222''
                      \<lparr>successes = 0, fails = 0, skipped = 0\<rparr>)) Sleep = 0
   \<and> count_list (snd (iteration transport_down False villas [''971501112222''] 0
                        ''971501112222'' \<lparr>successes = 0, fails = 0, skipped = 0\<rparr>)) Sleep = 1
   \<and> last (snd (iteration transport_down False villas [''971501112222''] 0
                  ''971501112222'' \<lparr>successes = 0, fails = 0, skipped = 0\<rparr>)) = Sleep
   \<and> count_list (snd (iteration office False villas [''971501112222''] 0
                        ''971501112222'' \<lparr>successes = 0, fails = 0, skipped = 0\<rparr>)) Sleep = 1
   \<and> last (snd (iteration office False villas [''971501112222''] 0
                  ''971501112222'' \<lparr>successes = 0, fails = 0, skipped = 0\<rparr>)) = Sleep"
proof -
  let ?z = "\<lparr>successes = 0, fails = 0, skipped = 0\<rparr>"
  have skip: "count_list (snd (iteration known_contacts True villas [''971501112222''] 0
                ''971501112222'' ?z)) Sleep = 0"
    using delay_once_unless_skipped
            [of known_contacts 0 "Some 0" "''971501112222''" "Some ''971501112222''" True
                villas "[''971501112222'']" ?z]
    by (simp add: office_defs known_contacts_def js_mod_def try_block_def has_timestamp_def)
  have failed: "count_list (snd (iteration transport_down False villas [''971501112222''] 0
                  ''971501112222'' ?z)) Sleep = 1
      \<and> last (snd (iteration transport_down False villas [''971501112222''] 0
                  ''971501112222'' ?z)) = Sleep"
    using delay_once_unless_skipped
            [of transport_down 0 "Some 0" "''971501112222''" "Some ''971501112222''" False
                villas "[''971501112222'']" ?z]
    by (simp add: office_defs transport_down_def js_mod_def try_block_def has_timestamp_def)
  have sent: "count_list (snd (iteration office False villas [''971501112222''] 0
                  ''971501112222'' ?z)) Sleep = 1
      \<and> last (snd (iteration office False villas [''971501112222''] 0
                  ''971501112222'' ?z)) = Sleep"
    using delay_once_unless_skipped
            [of office 0 "Some 0" "''971501112222''" "Some ''971501112222''" False
                villas "[''971501112222'']" ?z]
    by (simp add: office_defs js_mod_def try_block_def CampaignResult_def has_timestamp_def)
  from skip failed sent show ?thesis by blast
qed

subsection \<open>A probe that fails\<close>

text \<open>
  C6, as claimed: a contact whose probe fails with ProbeUnavailable is treated like one that
  was not found and is sent to, not counted as failed.  It fails when the probe raises:
  \<^verbatim>\<open>findAndCheckChat\<close> is awaited inside the \<^verbatim>\<open>try\<close> (line 27), so its error goes to the \<^verbatim>\<open>catch\<close>,
  which counts a failure; line 35 is not reached.  Here the run ends with one failure and
  no send.
\<close>

theorem raising_probe_counts_as_failure:
  "campaign_run probe_down [''971501112222''] villas False =
     (Inr \<lparr>successes = 0, fails = 1, skipped = 0\<rparr>,
      [(0, SelectingBot (Some 0)), (0, Validate ''971501112222''),
       (0, FindAndCheckChat (Some ''971501112222'') (Some 0)),
       (0, Failed (Thrown ''ProbeUnavailable'') ''971501112222''), (0, Sleep)])"
  by (simp add: run_defs office_defs probe_down_def)

text \<open>
  C6, amended.  For a contact with a session: when the probe returns without a usable
  result (a nullish result, or a chat without a timestamp; in general whenever the skip of
  line 28 is not taken) the iteration is the one of a contact that was not found, and
  \<^verbatim>\<open>sendMessage\<close> is called right after the probe.  When the probe raises, the contact is
  counted as failed, is not sent to, and the delay runs; the run is not aborted by the probe.
\<close>

theorem probe_without_result_sends_raising_probe_fails:
  assumes sel: "SelectingBotForCampaign e i (js_mod i (Agents e)) = Inr (Some s)"
    and val: "validateNumberWithCountryCode e num = Inr vc"
  shows "(case findAndCheckChat e vc i (Some s) of
            Inl err \<Rightarrow>
              iteration e n P numbers i num c =
                sleep_then e i (c\<lparr>fails := fails c + 1\<rparr>)
                  [SelectingBot (js_mod i (Agents e)), Validate num,
                   FindAndCheckChat vc (Some s), Failed err num]
          | Inr r \<Rightarrow>
              if n \<and> has_timestamp r
              then iteration e n P numbers i num c =
                     (Inr (c\<lparr>skipped := skipped c + 1\<rparr>),
                      [SelectingBot (js_mod i (Agents e)), Validate num,
                       FindAndCheckChat vc (Some s), Skipping vc])
              else iteration e n P numbers i num c =
                     iteration (e\<lparr>findAndCheckChat := (\<lambda>vc i cl. Inr None)\<rparr>)
                       n P numbers i num c
                   \<and> take 4 (snd (iteration e n P numbers i num c)) =
                       [SelectingBot (js_mod i (Agents e)), Validate num,
                        FindAndCheckChat vc (Some s),
                        SendMessage s vc (AfternoonMessage e)])"
  using assms
  by (simp add: iteration_def try_block_def sleep_then_def has_timestamp_def
        split: sum.splits option.splits)

theorem probe_without_result_sends_witness:
  "iteration probe_down False villas [''971501112222''] 0 ''971501112222''
       \<lparr>successes = 0, fails = 0, skipped = 0\<rparr> =
     (Inr \<lparr>successes = 0, fails = 1, skipped = 0\<rparr>,
      [SelectingBot (Some 0), Validate ''971501112222'',
       FindAndCheckChat (Some ''971501112222'') (Some 0),
       Failed (Thrown ''ProbeUnavailable'') ''971501112222'', Sleep])
   \<and> take 4 (snd (iteration office True villas [''971501112222''] 0 ''971501112222''
                    \<lparr>successes = 0, fails = 0, skipped = 0\<rparr>)) =
       [SelectingBot (Some 0), Validate ''971501112222'',
        FindAndCheckChat (Some ''971501112222'') (Some 0),
        SendMessage 0 (Some ''971501112222'') ''Good afternoon'']"
proof -
  let ?z = "\<lparr>successes = 0, fails = 0, skipped = 0\<rparr>"
  have raised: "iteration probe_down False villas [''971501112222''] 0 ''971501112222'' ?z =
     (Inr \<lparr>successes = 0, fails = 1, skipped = 0\<rparr>,
      [SelectingBot (Some 0), Validate ''971501112222'',
       FindAndCheckChat (Some ''971501112222'') (Some 0),
       Failed (Thrown ''ProbeUnavailable'') ''971501112222'', Sleep])"
    using probe_without_result_sends_raising_probe_fails
            [of probe_down 0 0 "''971501112222''" "Some ''971501112222''" False villas
                "[''971501112222'']" ?z]
    by (simp add: office_defs probe_down_def js_mod_def sleep_then_def)
  have nullish: "take 4 (snd (iteration office True villas [''971501112222''] 0
                               ''971501112222'' ?z)) =
       [SelectingBot (Some 0), Validate ''971501112222'',
        FindAndCheckChat (Some ''971501112222'') (Some 0),
        SendMessage 0 (Some ''971501112222'') ''Good afternoon'']"
    using probe_without_result_sends_raising_probe_fails
            [of office 0 0 "''971501112222''" "Some ''971501112222''" True villas
                "[''971501112222'']" ?z]
    by (simp add: office_defs js_mod_def has_timestamp_def)
  from raised nullish show ?thesis by blast
qed

subsection \<open>A number that is not valid\<close>

text \<open>
  C7, as claimed: a contact whose number fails validation is counted as a failure and never
  aborts the run.  It fails when the validator raises: \<^verbatim>\<open>validateNumberWithCountryCode\<close> is
  called on line 21, before the \<^verbatim>\<open>try\<close> of line 22, so its error leaves \<^verbatim>\<open>sendBroadcast\<close>.
  Here the first of two contacts is malformed: the run aborts, no failure is counted, and
  the second contact is never processed.
\<close>

theorem raising_validator_aborts_run:
  "campaign_run strict_validator [''971501112222-malformed'', ''971501112222''] villas False =
     (Inl (Thrown ''InvalidFormat''),
      [(0, SelectingBot (Some 0)), (0, Validate ''971501112222-malformed'')])
   \<and> sendBroadcast strict_validator [''971501112222-malformed'', ''971501112222''] villas False
       = Inl (Thrown ''InvalidFormat'')"
  by (simp add: run_defs office_defs strict_validator_def)

text \<open>
  C7, amended.  The Dispatcher takes no decision on the outcome of the validation.  When the
  validator raises, the run aborts there and the remaining contacts are not processed.
  When it returns a value (whatever it returns for a malformed number), the value is passed
  to the probe; the contact is counted as a failure exactly when the \<^verbatim>\<open>try\<close> block raises
  (the probe, the send or the report raises, see \<open>try_block_Raised_iff\<close>), and then, the
  delay returning, the loop goes on to the next contact.
\<close>

theorem validator_raise_aborts_value_goes_to_probe:
  assumes sel: "SelectingBotForCampaign e i (js_mod i (Agents e)) = Inr cl"
    and slp: "SleepTimeOfficialHoursWithRandomDelay e i = Inr ()"
  shows "(case validateNumberWithCountryCode e num of
            Inl err \<Rightarrow>
              broadcast_loop e n P numbers i (num # rest) c =
                (Inl err, [(i, SelectingBot (js_mod i (Agents e))), (i, Validate num)])
          | Inr vc \<Rightarrow>
              FindAndCheckChat vc cl \<in> set (snd (iteration e n P numbers i num c))
              \<and> (\<exists>c'. fst (iteration e n P numbers i num c) = Inr c'
                    \<and> fails c' = fails c
                         + (case fst (try_block e n P numbers i vc cl c) of
                              Raised err \<Rightarrow> 1 | Normal \<Rightarrow> 0 | Continue \<Rightarrow> 0)
                    \<and> broadcast_loop e n P numbers i (num # rest) c =
                        (case broadcast_loop e n P numbers (Suc i) rest c' of
                           (r, t) \<Rightarrow>
                             (r, map (Pair i) (snd (iteration e n P numbers i num c)) @ t))))"
proof (cases "validateNumberWithCountryCode e num")
  case (Inl err)
  with sel show ?thesis by (simp add: iteration_def)
next
  case (Inr vc)
  obtain k c1 evs where tb: "try_block e n P numbers i vc cl c = (k, c1, evs)"
    by (cases "try_block e n P numbers i vc cl c")
  have f: "fails c1 = fails c"
    using try_block_fails[of e n P numbers i vc cl c] tb by simp
  have p: "FindAndCheckChat vc cl \<in> set evs"
    using try_block_probes[of vc cl e n P numbers i c] tb by simp
  show ?thesis
  proof (cases k)
    case Normal
    with sel slp Inr tb f p show ?thesis
      by (simp add: iteration_def sleep_then_def)
  next
    case Continue
    with sel slp Inr tb f p show ?thesis
      by (simp add: iteration_def sleep_then_def)
  next
    case (Raised err)
    with sel slp Inr tb f p show ?thesis
      by (simp add: iteration_def sleep_then_def)
  qed
qed

theorem validator_raise_aborts_witness:
  "broadcast_loop strict_validator False villas [''0501112222'', ''971501112222''] 0
       [''0501112222'', ''971501112222''] \<lparr>successes = 0, fails = 0, skipped = 0\<rparr> =
     (Inl (Thrown ''InvalidFormat''), [(0, SelectingBot (Some 0)), (0, Validate ''0501112222'')])
   \<and> FindAndCheckChat (Some ''0501112222'') (Some 0)
       \<in> set (snd (iteration transport_down False villas [''0501112222'', ''971501112222''] 0
                     ''0501112222'' \<lparr>successes = 0, fails = 0, skipped = 0\<rparr>))
   \<and> (\<exists>c'. fst (iteration transport_down False villas [''0501112222'', ''971501112222''] 0
                  ''0501112222'' \<lparr>successes = 0, fails = 0, skipped = 0\<rparr>) = Inr c'
          \<and> fails c' = 1)"
proof -
  let ?z = "\<lparr>successes = 0, fails = 0, skipped = 0\<rparr>"
  have abort: "broadcast_loop strict_validator False villas [''0501112222'', ''971501112222''] 0
       [''0501112222'', ''971501112222''] ?z =
     (Inl (Thrown ''InvalidFormat''), [(0, SelectingBot (Some 0)), (0, Validate ''0501112222'')])"
    using validator_raise_aborts_value_goes_to_probe
            [where e = strict_validator and i = 0 and cl = "Some 0" and num = "''0501112222''"
               and n = False and P = villas and numbers = "[''0501112222'', ''971501112222'']"
               and rest = "[''971501112222'']" and c = ?z]
    by (simp add: office_defs strict_validator_def js_mod_def del: broadcast_loop.simps)
  have passed: "FindAndCheckChat (Some ''0501112222'') (Some 0)
       \<in> set (snd (iteration transport_down False villas [''0501112222'', ''971501112222''] 0
                     ''0501112222'' ?z))
   \<and> (\<exists>c'. fst (iteration transport_down False villas [''0501112222'', ''971501112222''] 0
                  ''0501112222'' ?z) = Inr c'
          \<and> fails c' = 1)"
    using validator_raise_aborts_value_goes_to_probe
            [where e = transport_down and i = 0 and cl = "Some 0" and num = "''0501112222''"
               and n = False and P = villas and numbers = "[''0501112222'', ''971501112222'']"
               and rest = "[''971501112222'']" and c = ?z]
    by (auto simp add: office_defs transport_down_def js_mod_def try_block_def
          has_timestamp_def simp del: broadcast_loop.simps)
  from abort passed show ?thesis by blast
qed

subsection \<open>An empty contact list, an empty session pool\<close>

text \<open>
  C9, as claimed: with an empty session pool or an empty contact list the run fails with a
  fatal configuration error before any contact is processed, and no contact is probed.  It
  fails: \<^verbatim>\<open>sendBroadcast\<close> checks neither.  With an empty list the loop body never runs and
  the function returns \<^verbatim>\<open>{successes: 0, fails: 0}\<close>.  With \<^verbatim>\<open>InputOne.Agents\<close> zero the selector
  is called with \<^verbatim>\<open>NaN\<close>; in this office it returns \<^verbatim>\<open>undefined\<close>, the contact is probed, the
  send raises a TypeError inside the \<^verbatim>\<open>try\<close>, and the run completes with one failure.
\<close>

theorem empty_list_and_empty_pool_complete:
  "sendBroadcast office [] villas True = Inr \<lparr>successes = 0, fails = 0\<rparr>
   \<and> campaign_run no_agents [''971501112222''] villas True =
       (Inr \<lparr>successes = 0, fails = 1, skipped = 0\<rparr>,
        [(0, SelectingBot None), (0, Validate ''971501112222''),
         (0, FindAndCheckChat (Some ''971501112222'') None),
         (0, Failed TypeError ''971501112222''), (0, Sleep)])"
  by (simp add: run_defs office_defs no_agents_def)

text \<open>
  C9, amended.  There is no configuration check at the start of a run.  When the (shuffled)
  contact list is empty, the run completes normally with all counters zero and returns
  zero successes and zero fails; nothing is selected, probed or sent.  When the session
  pool is empty, the run starts all the same: the first thing it does is to call the
  selector with \<^verbatim>\<open>NaN\<close> for the first contact, and when the selector and the validator
  return, that contact is probed.
\<close>

theorem no_configuration_check:
  "(ShuffleMyArray e MNumbers = Inr [] \<longrightarrow>
      campaign_run e MNumbers P n = (Inr \<lparr>successes = 0, fails = 0, skipped = 0\<rparr>, [])
      \<and> sendBroadcast e MNumbers P n = Inr \<lparr>successes = 0, fails = 0\<rparr>)
   \<and> (Agents e = 0 \<longrightarrow> ShuffleMyArray e MNumbers = Inr (num # rest) \<longrightarrow>
        hd (snd (campaign_run e MNumbers P n)) = (0, SelectingBot None)
        \<and> (\<forall>cl vc. SelectingBotForCampaign e 0 None = Inr cl
               \<longrightarrow> validateNumberWithCountryCode e num = Inr vc
               \<longrightarrow> (0, FindAndCheckChat vc cl) \<in> set (snd (campaign_run e MNumbers P n))))"
proof -
  have empty: "campaign_run e MNumbers P n
                 = (Inr \<lparr>successes = 0, fails = 0, skipped = 0\<rparr>, [])
               \<and> sendBroadcast e MNumbers P n = Inr \<lparr>successes = 0, fails = 0\<rparr>"
    if "ShuffleMyArray e MNumbers = Inr []"
    using that by (simp add: campaign_run_def sendBroadcast_def)
  have first: "hd (snd (campaign_run e MNumbers P n)) = (0, SelectingBot None)"
    if "Agents e = 0" and "ShuffleMyArray e MNumbers = Inr (num # rest)"
    using that
    by (simp add: campaign_run_def iteration_def sleep_then_def js_mod_def
          split: sum.splits prod.splits completion.splits)
  have probed: "(0, FindAndCheckChat vc cl) \<in> set (snd (campaign_run e MNumbers P n))"
    if z: "Agents e = 0" and sh: "ShuffleMyArray e MNumbers = Inr (num # rest)"
      and sel: "SelectingBotForCampaign e 0 None = Inr cl"
      and val: "validateNumberWithCountryCode e num = Inr vc" for cl vc
  proof -
    let ?z = "\<lparr>successes = 0, fails = 0, skipped = 0\<rparr>"
    obtain k c1 evs where tb: "try_block e n P (num # rest) 0 vc cl ?z = (k, c1, evs)"
      by (cases "try_block e n P (num # rest) 0 vc cl ?z")
    have p: "FindAndCheckChat vc cl \<in> set evs"
      using try_block_probes[of vc cl e n P "num # rest" 0 ?z] tb by simp
    then have q: "(0, FindAndCheckChat vc cl) \<in> Pair 0 ` set evs"
      by blast
    show ?thesis
      using z sh sel val tb q
      by (cases k)
         (auto simp: campaign_run_def iteration_def sleep_then_def js_mod_def
            split: sum.splits prod.splits)
  qed
  from empty first probed show ?thesis by blast
qed

theorem no_configuration_check_witness:
  "campaign_run office [] villas True = (Inr \<lparr>successes = 0, fails = 0, skipped = 0\<rparr>, [])
   \<and> sendBroadcast office [] villas True = Inr \<lparr>successes = 0, fails = 0\<rparr>
   \<and> hd (snd (campaign_run no_agents [''971501112222''] villas True)) = (0, SelectingBot None)
   \<and> (0, FindAndCheckChat (Some ''971501112222'') None)
       \<in> set (snd (campaign_run no_agents [''971501112222''] villas True))"
proof -
  have sh0: "ShuffleMyArray office [] = Inr []"
    by (simp add: office_def)
  have z: "Agents no_agents = 0"
    by (simp add: no_agents_def)
  have sh1: "ShuffleMyArray no_agents [''971501112222''] = Inr [''971501112222'']"
    by (simp add: office_def no_agents_def)
  have sel: "SelectingBotForCampaign no_agents 0 None = Inr None"
    by (simp add: office_def no_agents_def)
  have val: "validateNumberWithCountryCode no_agents ''971501112222''
               = Inr (Some ''971501112222'')"
    by (simp add: office_def no_agents_def)
  from no_configuration_check[of office "[]" villas True]
  have a: "campaign_run office [] villas True
             = (Inr \<lparr>successes = 0, fails = 0, skipped = 0\<rparr>, [])
           \<and> sendBroadcast office [] villas True = Inr \<lparr>successes = 0, fails = 0\<rparr>"
    using sh0 by blast
  from no_configuration_check
         [of no_agents "[''971501112222'']" villas True "''971501112222''" "[]"]
  have b: "hd (snd (campaign_run no_agents [''971501112222''] villas True))
             = (0, SelectingBot None)
           \<and> (0, FindAndCheckChat (Some ''971501112222'') None)
               \<in> set (snd (campaign_run no_agents [''971501112222''] villas True))"
    using z sh1 sel val by blast
  from a b show ?thesis by blast
qed

section \<open>The inbound router\<close>

subsection \<open>Auxiliary facts\<close>

lemma findIndex_lower: "- 1 \<le> findIndex P xs"
  by (induction xs) (auto simp: Let_def)

lemma findIndex_found: "x \<in> set xs \<Longrightarrow> P x \<Longrightarrow> 0 \<le> findIndex P xs"
  by (induction xs) (auto simp: Let_def)

text \<open>A result that is not \<open>-1\<close> is the first index whose element satisfies the predicate.\<close>

lemma findIndex_first:
  "0 \<le> findIndex P xs \<Longrightarrow>
     nat (findIndex P xs) < length xs \<and> P (xs ! nat (findIndex P xs))
     \<and> (\<forall>k < nat (findIndex P xs). \<not> P (xs ! k))"
proof (induction xs)
  case Nil
  then show ?case by simp
next
  case (Cons x xs)
  show ?case
  proof (cases "P x")
    case True
    then show ?thesis by simp
  next
    case False
    with Cons.prems have k: "0 \<le> findIndex P xs"
      by (simp add: Let_def split: if_splits)
    with False have eq: "findIndex P (x # xs) = findIndex P xs + 1"
      by (simp add: Let_def)
    from k have n: "nat (findIndex P xs + 1) = Suc (nat (findIndex P xs))"
      by simp
    from Cons.IH[OF k] False show ?thesis
      by (auto simp: eq n less_Suc_eq_0_disj simp del: findIndex.simps)
  qed
qed

lemma findIndex_unique:
  assumes "j < length xs" and "P (xs ! j)" and "\<forall>k<j. \<not> P (xs ! k)"
  shows "findIndex P xs = int j"
proof -
  from assms have "xs ! j \<in> set xs"
    by simp
  then have ge: "0 \<le> findIndex P xs"
    using assms(2) by (rule findIndex_found)
  let ?m = "nat (findIndex P xs)"
  from findIndex_first[OF ge]
  have m: "?m < length xs" "P (xs ! ?m)" "\<forall>k < ?m. \<not> P (xs ! k)"
    by blast+
  have "\<not> j < ?m" using m(3) assms(2) by blast
  moreover have "\<not> ?m < j" using assms(3) m(2) by blast
  ultimately have "?m = j" by simp
  with ge show ?thesis by simp
qed

text \<open>The branches for a chat message call at most one handler.\<close>

lemma chat_branches_one_handler:
  "length (filter is_handler (snd (chat_branches r msg))) \<le> 1"
proof (cases "body msg")
  case None
  then show ?thesis by (simp add: chat_branches_def)
next
  case (Some b)
  show ?thesis
  proof (cases "b = ''Kindly share the mobile number of the owner''")
    case True
    with Some show ?thesis by (simp add: chat_branches_def)
  next
    case owner: False
    show ?thesis
    proof (cases "sublist ''House Number/Municipality Number='' b \<and> hasQuotedMsg msg")
      case True
      with Some owner show ?thesis by (simp add: chat_branches_def)
    next
      case sharing: False
      show ?thesis
      proof (cases "b \<in> set (ClientQuestionsArray r)")
        case True
        with Some owner sharing show ?thesis
          by (simp add: chat_branches_def Let_def split: sum.splits promise.splits)
      next
        case faq: False
        show ?thesis
        proof (cases "find (\<lambda>x. ProjectName x = b) (MyProjects r)")
          case None
          with Some owner sharing faq show ?thesis
            by (simp add: chat_branches_def split: sum.splits)
        next
          case (Some p)
          with \<open>body msg = Some b\<close> owner sharing faq show ?thesis
            by (simp add: chat_branches_def split: sum.splits)
        qed
      qed
    qed
  qed
qed

text \<open>What a chat message whose body is a listed question does, when no earlier rule fires.\<close>

lemma chat_branches_question:
  assumes "body msg = Some b"
    and "b \<noteq> ''Kindly share the mobile number of the owner''"
    and "\<not> (sublist ''House Number/Municipality Number='' b \<and> hasQuotedMsg msg)"
    and "b \<in> set (ClientQuestionsArray r)"
  shows "filter is_handler (snd (chat_branches r msg)) =
           [Reply (js_at (ClientAnswersArray r)
                     (findIndex (\<lambda>x. x = b) (ClientQuestionsArray r)))]"
  using assms
  by (auto simp: chat_branches_def Let_def split: sum.splits promise.splits)

lemma MessageAnalyzer_handlers:
  "filter is_handler (snd (MessageAnalyzer r msg)) =
     (if msg_type msg = ''chat'' then filter is_handler (snd (chat_branches r msg)) else [])"
  by (simp add: MessageAnalyzer_def split: prod.splits sum.splits)

text \<open>
  \<^verbatim>\<open>MessageAnalyzer\<close> itself always returns: what is raised inside its \<^verbatim>\<open>try\<close> is caught.
\<close>

lemma MessageAnalyzer_returns: "fst (MessageAnalyzer r msg) = Inr ()"
  by (simp add: MessageAnalyzer_def split: prod.splits sum.splits)

subsection \<open>One handler, and the answer to a question\<close>

text \<open>
  C5.  For every message the router calls at most one handler.  For a chat message whose
  body is the question at index \<open>j\<close> of \<^verbatim>\<open>ClientQuestionsArray\<close>, and which matches neither the
  owner request nor the contact-sharing rule, the only handler called is the reply, with
  the answer at the first index \<open>j0\<close> whose question is the body (\<open>j0 \<le> j\<close>); when no earlier
  question equals the body, that is \<^verbatim>\<open>ClientAnswersArray[j]\<close> (\<^verbatim>\<open>undefined\<close> when the answers are
  fewer than the questions).
\<close>

theorem one_handler_and_answer_at_first_index:
  "length (filter is_handler (snd (MessageAnalyzer r msg))) \<le> 1
   \<and> (msg_type msg = ''chat'' \<longrightarrow> body msg = Some b
        \<longrightarrow> b \<noteq> ''Kindly share the mobile number of the owner''
        \<longrightarrow> \<not> (sublist ''House Number/Municipality Number='' b \<and> hasQuotedMsg msg)
        \<longrightarrow> j < length (ClientQuestionsArray r) \<longrightarrow> ClientQuestionsArray r ! j = b
        \<longrightarrow> (\<exists>j0. j0 \<le> j \<and> ClientQuestionsArray r ! j0 = b
                 \<and> (\<forall>k<j0. ClientQuestionsArray r ! k \<noteq> b)
                 \<and> filter is_handler (snd (MessageAnalyzer r msg))
                     = [Reply (js_at (ClientAnswersArray r) (int j0))])
            \<and> ((\<forall>k<j. ClientQuestionsArray r ! k \<noteq> b)
                 \<longrightarrow> filter is_handler (snd (MessageAnalyzer r msg))
                       = [Reply (js_at (ClientAnswersArray r) (int j))]))"
proof -
  have one: "length (filter is_handler (snd (MessageAnalyzer r msg))) \<le> 1"
    using chat_branches_one_handler[of r msg] by (simp add: MessageAnalyzer_handlers)
  have faq: "(\<exists>j0. j0 \<le> j \<and> ClientQuestionsArray r ! j0 = b
                 \<and> (\<forall>k<j0. ClientQuestionsArray r ! k \<noteq> b)
                 \<and> filter is_handler (snd (MessageAnalyzer r msg))
                     = [Reply (js_at (ClientAnswersArray r) (int j0))])
            \<and> ((\<forall>k<j. ClientQuestionsArray r ! k \<noteq> b)
                 \<longrightarrow> filter is_handler (snd (MessageAnalyzer r msg))
                       = [Reply (js_at (ClientAnswersArray r) (int j))])"
    if chat: "msg_type msg = ''chat''" and bd: "body msg = Some b"
      and r1: "b \<noteq> ''Kindly share the mobile number of the owner''"
      and r2: "\<not> (sublist ''House Number/Municipality Number='' b \<and> hasQuotedMsg msg)"
      and j: "j < length (ClientQuestionsArray r)" and q: "ClientQuestionsArray r ! j = b"
  proof -
    let ?Q = "ClientQuestionsArray r"
    let ?ix = "findIndex (\<lambda>x. x = b) ?Q"
    from j q have mem: "b \<in> set ?Q"
      using nth_mem by blast
    have h: "filter is_handler (snd (MessageAnalyzer r msg))
               = [Reply (js_at (ClientAnswersArray r) ?ix)]"
      using chat chat_branches_question[OF bd r1 r2 mem]
      by (simp add: MessageAnalyzer_handlers)
    from mem have ge: "0 \<le> ?ix"
      by (rule findIndex_found) simp
    let ?m = "nat ?ix"
    from findIndex_first[OF ge]
    have m: "?Q ! ?m = b" "\<forall>k < ?m. ?Q ! k \<noteq> b"
      by blast+
    have le: "?m \<le> j"
    proof (rule ccontr)
      assume "\<not> ?m \<le> j"
      then have "j < ?m" by simp
      with m(2) q show False by blast
    qed
    from ge have ix: "?ix = int ?m" by simp
    have first: "\<exists>j0. j0 \<le> j \<and> ?Q ! j0 = b \<and> (\<forall>k<j0. ?Q ! k \<noteq> b)
                   \<and> filter is_handler (snd (MessageAnalyzer r msg))
                       = [Reply (js_at (ClientAnswersArray r) (int j0))]"
      using le m h ix by metis
    have same: "filter is_handler (snd (MessageAnalyzer r msg))
                  = [Reply (js_at (ClientAnswersArray r) (int j))]"
      if "\<forall>k<j. ?Q ! k \<noteq> b"
    proof -
      have "?ix = int j"
        using findIndex_unique[of j ?Q "\<lambda>x. x = b"] j q that by simp
      with h show ?thesis by simp
    qed
    from first same show ?thesis by blast
  qed
  from one faq show ?thesis by blast
qed

theorem one_handler_and_answer_witness:
  "length (filter is_handler (snd (MessageAnalyzer desk where_message))) \<le> 1
   \<and> filter is_handler (snd (MessageAnalyzer desk where_message))
       = [Reply (Some ''In Damac Hills 2'')]"
proof -
  have chat: "msg_type where_message = ''chat''"
    by (simp add: where_message_def)
  have bd: "body where_message = Some ''Where is the property?''"
    by (simp add: where_message_def)
  have r1: "''Where is the property?'' \<noteq> ''Kindly share the mobile number of the owner''"
    by simp
  have r2: "\<not> (sublist ''House Number/Municipality Number='' ''Where is the property?''
                \<and> hasQuotedMsg where_message)"
    by (simp add: where_message_def)
  have j: "(1::nat) < length (ClientQuestionsArray desk)"
    by (simp add: desk_def)
  have q: "ClientQuestionsArray desk ! 1 = ''Where is the property?''"
    by (simp add: desk_def)
  have fst: "\<forall>k<(1::nat). ClientQuestionsArray desk ! k \<noteq> ''Where is the property?''"
    by (simp add: desk_def)
  have a: "js_at (ClientAnswersArray desk) (int 1) = Some ''In Damac Hills 2''"
    by (simp add: desk_def js_at_def)
  from one_handler_and_answer_at_first_index
         [of desk where_message "''Where is the property?''" 1]
       chat bd r1 r2 j q fst
  have "length (filter is_handler (snd (MessageAnalyzer desk where_message))) \<le> 1
        \<and> filter is_handler (snd (MessageAnalyzer desk where_message))
            = [Reply (js_at (ClientAnswersArray desk) (int 1))]"
    by blast
  with a show ?thesis by simp
qed

subsection \<open>Errors of the handlers\<close>

text \<open>
  C8.  The claim: any error of an invoked handler is caught inside \<^verbatim>\<open>MessageAnalyzer\<close> and
  logged.  The handlers of lines 31, 35, 50 and 74 are awaited, so their errors reach the
  \<^verbatim>\<open>catch\<close> of line 93; \<^verbatim>\<open>msg.reply\<close> on line 46 is not awaited.  When the reply cannot be
  delivered and its promise rejects, \<^verbatim>\<open>MessageAnalyzer\<close> has already left the \<^verbatim>\<open>try\<close>: the
  function returns normally (\<open>MessageAnalyzer_returns\<close>), the error is neither caught nor
  logged, and it is left as a rejection that nothing handles.
\<close>

theorem rejected_reply_is_not_caught:
  "MessageAnalyzer offline_desk where_message =
     (Inr (), [Reply (Some ''In Damac Hills 2''), UnhandledRejection (Thrown ''TransportError'')])"
  by (simp add: MessageAnalyzer_def chat_branches_def offline_desk_def desk_def
        where_message_def js_at_def Let_def)

end
